theory Spec2Isabelle
  imports Complex_Main
begin

section \<open>Floating-point values\<close>

text \<open>
  The projection code of \<^verbatim>\<open>matplotlib/projections/polar.py\<close> computes on numpy
  \<^verbatim>\<open>float64\<close> values. A value is modelled as a real number, the negative zero, an
  infinity or \<open>NaN\<close>; \<open>Fin 0\<close> is the positive zero. Rounding and overflow are not
  modelled: an operation on numbers gives the exact real result. The special cases follow
  IEEE 754 as numpy applies them: an operation with a \<open>NaN\<close> operand gives \<open>NaN\<close>, every
  comparison with a \<open>NaN\<close> operand is false, except \<^verbatim>\<open>!=\<close>, which is true, the two zeros
  compare equal, a zero result of a product or a quotient takes the sign of its operands,
  a sum is the negative zero only when both summands are, and a division by zero warns
  and gives an infinity, or \<open>NaN\<close> for a zero or \<open>NaN\<close> dividend.
\<close>

datatype npfloat = Fin real | NZero | PInf | NInf | NaN

fun fval :: "npfloat \<Rightarrow> real option" where
  "fval (Fin a) = Some a"
| "fval NZero = Some 0"
| "fval PInf = None"
| "fval NInf = None"
| "fval NaN = None"

fun sign_bit :: "npfloat \<Rightarrow> bool" where
  "sign_bit (Fin a) = (a < 0)"
| "sign_bit NZero = True"
| "sign_bit PInf = False"
| "sign_bit NInf = True"
| "sign_bit NaN = False"

definition signed_zero :: "bool \<Rightarrow> npfloat" where
  "signed_zero neg = (if neg then NZero else Fin 0)"

definition signed_inf :: "bool \<Rightarrow> npfloat" where
  "signed_inf neg = (if neg then NInf else PInf)"

definition signed :: "bool \<Rightarrow> real \<Rightarrow> npfloat" where
  "signed neg v = (if v = 0 then signed_zero neg else Fin v)"

definition fadd :: "npfloat \<Rightarrow> npfloat \<Rightarrow> npfloat" where
  "fadd a b =
     (if a = NaN \<or> b = NaN then NaN
      else case (fval a, fval b) of
             (Some x, Some y) \<Rightarrow>
               if x + y = 0 then signed_zero (a = NZero \<and> b = NZero) else Fin (x + y)
           | (Some x, None) \<Rightarrow> b
           | (None, Some y) \<Rightarrow> a
           | (None, None) \<Rightarrow> if a = b then a else NaN)"

fun fneg :: "npfloat \<Rightarrow> npfloat" where
  "fneg (Fin a) = (if a = 0 then NZero else Fin (- a))"
| "fneg NZero = Fin 0"
| "fneg PInf = NInf"
| "fneg NInf = PInf"
| "fneg NaN = NaN"

definition fsub :: "npfloat \<Rightarrow> npfloat \<Rightarrow> npfloat" where
  "fsub a b = fadd a (fneg b)"

definition fmul :: "npfloat \<Rightarrow> npfloat \<Rightarrow> npfloat" where
  "fmul a b =
     (if a = NaN \<or> b = NaN then NaN
      else let neg = (sign_bit a \<noteq> sign_bit b)
           in case (fval a, fval b) of
                (Some x, Some y) \<Rightarrow> signed neg (x * y)
              | (Some x, None) \<Rightarrow> if x = 0 then NaN else signed_inf neg
              | (None, Some y) \<Rightarrow> if y = 0 then NaN else signed_inf neg
              | (None, None) \<Rightarrow> signed_inf neg)"

definition fdiv :: "npfloat \<Rightarrow> npfloat \<Rightarrow> npfloat" where
  "fdiv a b =
     (if a = NaN \<or> b = NaN then NaN
      else let neg = (sign_bit a \<noteq> sign_bit b)
           in case (fval a, fval b) of
                (Some x, Some y) \<Rightarrow>
                  if y = 0 then (if x = 0 then NaN else signed_inf neg)
                  else signed neg (x / y)
              | (Some x, None) \<Rightarrow> signed_zero neg
              | (None, Some y) \<Rightarrow> signed_inf neg
              | (None, None) \<Rightarrow> NaN)"

fun fabs :: "npfloat \<Rightarrow> npfloat" where
  "fabs (Fin a) = Fin \<bar>a\<bar>"
| "fabs NZero = Fin 0"
| "fabs PInf = PInf"
| "fabs NInf = PInf"
| "fabs NaN = NaN"

definition fcos :: "npfloat \<Rightarrow> npfloat" where
  "fcos a = (case fval a of Some x \<Rightarrow> Fin (cos x) | None \<Rightarrow> NaN)"

fun fsin :: "npfloat \<Rightarrow> npfloat" where
  "fsin (Fin a) = Fin (sin a)"
| "fsin NZero = NZero"
| "fsin PInf = NaN"
| "fsin NInf = NaN"
| "fsin NaN = NaN"

fun fsqrt :: "npfloat \<Rightarrow> npfloat" where
  "fsqrt (Fin a) = (if a < 0 then NaN else Fin (sqrt a))"
| "fsqrt NZero = NZero"
| "fsqrt PInf = PInf"
| "fsqrt NInf = NaN"
| "fsqrt NaN = NaN"

definition farccos :: "npfloat \<Rightarrow> npfloat" where
  "farccos a =
     (case fval a of
        Some x \<Rightarrow> if - 1 \<le> x \<and> x \<le> 1 then Fin (arccos x) else NaN
      | None \<Rightarrow> NaN)"

fun flt :: "npfloat \<Rightarrow> npfloat \<Rightarrow> bool" where
  "flt (Fin a) (Fin b) = (a < b)"
| "flt (Fin a) NZero = (a < 0)"
| "flt NZero (Fin b) = (0 < b)"
| "flt NZero NZero = False"
| "flt NaN _ = False"
| "flt _ NaN = False"
| "flt _ NInf = False"
| "flt PInf _ = False"
| "flt NInf _ = True"
| "flt _ PInf = True"

fun fle :: "npfloat \<Rightarrow> npfloat \<Rightarrow> bool" where
  "fle (Fin a) (Fin b) = (a \<le> b)"
| "fle (Fin a) NZero = (a \<le> 0)"
| "fle NZero (Fin b) = (0 \<le> b)"
| "fle NZero NZero = True"
| "fle NaN _ = False"
| "fle _ NaN = False"
| "fle NInf _ = True"
| "fle _ PInf = True"
| "fle _ NInf = False"
| "fle PInf _ = False"

definition fgt :: "npfloat \<Rightarrow> npfloat \<Rightarrow> bool" where
  "fgt a b = flt b a"

definition fge :: "npfloat \<Rightarrow> npfloat \<Rightarrow> bool" where
  "fge a b = fle b a"

fun feq :: "npfloat \<Rightarrow> npfloat \<Rightarrow> bool" where
  "feq (Fin a) (Fin b) = (a = b)"
| "feq (Fin a) NZero = (a = 0)"
| "feq NZero (Fin b) = (b = 0)"
| "feq NZero NZero = True"
| "feq PInf PInf = True"
| "feq NInf NInf = True"
| "feq _ _ = False"

definition fne :: "npfloat \<Rightarrow> npfloat \<Rightarrow> bool" where
  "fne a b = (\<not> feq a b)"

section \<open>The view limits and the axes object\<close>

text \<open>
  Modelled from the spec: the class \<^verbatim>\<open>Bbox\<close> of the transforms module is not among
  the sources. The spec's ViewLimits is a rectangular box of which only the radius-minimum
  and the radius-maximum are consulted. The box stores two corners; \<^verbatim>\<open>set_rmin\<close> and
  \<^verbatim>\<open>set_rmax\<close> write \<^verbatim>\<open>y0\<close> and \<^verbatim>\<open>y1\<close>, the projections and \<^verbatim>\<open>get_rmax\<close> read
  \<^verbatim>\<open>ymin\<close> and \<^verbatim>\<open>ymax\<close>, the smaller and the larger of the two stored bounds.
\<close>

record Bbox =
  x0 :: npfloat
  y0 :: npfloat
  x1 :: npfloat
  y1 :: npfloat

definition ymin :: "Bbox \<Rightarrow> npfloat" where
  "ymin b = (if flt (y1 b) (y0 b) then y1 b else y0 b)"

definition ymax :: "Bbox \<Rightarrow> npfloat" where
  "ymax b = (if fgt (y1 b) (y0 b) then y1 b else y0 b)"

type_synonym point = "npfloat \<times> npfloat"

text \<open>
  An axes object is referred to by its identity; the heap gives the view limits an axes
  currently has, so that a projection bound to an axes reads the live \<^verbatim>\<open>rmin\<close>.
\<close>

type_synonym axes_ref = nat

type_synonym heap = "axes_ref \<Rightarrow> Bbox"

section \<open>The forward and the inverse polar projection\<close>

datatype Transform =
    PolarTransform "axes_ref option"
  | InvertedPolarTransform "axes_ref option"

text \<open>
  numpy computes the projections on whole columns at once; each row of the result depends
  on the same row of the input only, so the model maps a function over the rows. The
  three row functions are the masked branch and the plain branch of
  \<^verbatim>\<open>PolarTransform.transform\<close> and the body of \<^verbatim>\<open>InvertedPolarTransform.transform\<close>,
  whose argument is the \<^verbatim>\<open>rmin\<close> of the bound axes, if any.
\<close>

definition polar_row_masked :: "npfloat \<Rightarrow> point \<Rightarrow> point" where
  "polar_row_masked rmin tr =
     (let t = fst tr;
          r = fsub (snd tr) rmin;
          mask = flt r (Fin 0)
      in (if mask then NaN else fmul r (fcos t),
          if mask then NaN else fmul r (fsin t)))"

definition polar_row_plain :: "point \<Rightarrow> point" where
  "polar_row_plain tr =
     (let t = fst tr;
          r = snd tr
      in (fmul r (fcos t), fmul r (fsin t)))"

definition inverted_polar_row :: "npfloat option \<Rightarrow> point \<Rightarrow> point" where
  "inverted_polar_row rmin xy =
     (let x = fst xy;
          y = snd xy;
          r = fsqrt (fadd (fmul x x) (fmul y y));
          r = (case rmin of Some m \<Rightarrow> fadd r m | None \<Rightarrow> r);
          theta = farccos (fdiv x r);
          theta = (if flt y (Fin 0) then fsub (Fin (2 * pi)) theta else theta)
      in (theta, r))"

fun transform :: "heap \<Rightarrow> Transform \<Rightarrow> point list \<Rightarrow> point list" where
  "transform h (PolarTransform axis) tr =
     (let rmin = (case axis of Some a \<Rightarrow> ymin (h a) | None \<Rightarrow> Fin 0)
      in if fne rmin (Fin 0) then map (polar_row_masked rmin) tr
         else map polar_row_plain tr)"
| "transform h (InvertedPolarTransform axis) xy =
     map (inverted_polar_row (map_option (\<lambda>a. ymin (h a)) axis)) xy"

fun inverted :: "Transform \<Rightarrow> Transform" where
  "inverted (PolarTransform axis) = InvertedPolarTransform axis"
| "inverted (InvertedPolarTransform axis) = PolarTransform None"

section \<open>Paths\<close>








section \<open>Affine transforms\<close>

text \<open>
  Modelled from the spec: the class \<^verbatim>\<open>Affine2D\<close> of the transforms module is not among
  the sources. It is a 3 by 3 matrix of a 2D affine map; \<^verbatim>\<open>scale\<close> and \<^verbatim>\<open>translate\<close>
  compose a scaling or a translation after the map held so far, \<^verbatim>\<open>clear\<close> resets it to
  the identity, and \<^verbatim>\<open>to_values\<close> lists the six entries of the first two rows, column by
  column, so that positions 4 and 5 are the translation.
\<close>

type_synonym row3 = "npfloat \<times> npfloat \<times> npfloat"

type_synonym matrix = "row3 \<times> row3 \<times> row3"

definition dot3 :: "row3 \<Rightarrow> npfloat \<Rightarrow> npfloat \<Rightarrow> npfloat \<Rightarrow> npfloat" where
  "dot3 r a b c =
     (case r of (p, q, s) \<Rightarrow> fadd (fadd (fmul p a) (fmul q b)) (fmul s c))"

definition dot_row :: "row3 \<Rightarrow> matrix \<Rightarrow> row3" where
  "dot_row r m =
     (case m of ((a00, a01, a02), (a10, a11, a12), (a20, a21, a22)) \<Rightarrow>
        (dot3 r a00 a10 a20, dot3 r a01 a11 a21, dot3 r a02 a12 a22))"

definition dot :: "matrix \<Rightarrow> matrix \<Rightarrow> matrix" where
  "dot m n = (case m of (r0, r1, r2) \<Rightarrow> (dot_row r0 n, dot_row r1 n, dot_row r2 n))"

definition Affine2D :: matrix where
  "Affine2D = ((Fin 1, Fin 0, Fin 0), (Fin 0, Fin 1, Fin 0), (Fin 0, Fin 0, Fin 1))"

definition scale :: "matrix \<Rightarrow> npfloat \<Rightarrow> npfloat \<Rightarrow> matrix" where
  "scale m sx sy = dot ((sx, Fin 0, Fin 0), (Fin 0, sy, Fin 0), (Fin 0, Fin 0, Fin 1)) m"

definition translate :: "matrix \<Rightarrow> npfloat \<Rightarrow> npfloat \<Rightarrow> matrix" where
  "translate m tx ty = dot ((Fin 1, Fin 0, tx), (Fin 0, Fin 1, ty), (Fin 0, Fin 0, Fin 1)) m"

definition clear :: "matrix \<Rightarrow> matrix" where
  "clear m = Affine2D"

definition to_values :: "matrix \<Rightarrow> npfloat list" where
  "to_values m =
     (case m of ((a00, a01, a02), (a10, a11, a12), _) \<Rightarrow> [a00, a10, a01, a11, a02, a12])"

definition affine_point :: "matrix \<Rightarrow> point \<Rightarrow> point" where
  "affine_point m p =
     (case m of (r0, r1, _) \<Rightarrow> (dot3 r0 (fst p) (snd p) (Fin 1), dot3 r1 (fst p) (snd p) (Fin 1)))"

definition transformed :: "Bbox \<Rightarrow> (point \<Rightarrow> point) \<Rightarrow> Bbox" where
  "transformed b f =
     (let p0 = f (x0 b, y0 b);
          p1 = f (x1 b, y1 b)
      in \<lparr>x0 = fst p0, y0 = snd p0, x1 = fst p1, y1 = snd p1\<rparr>)"

section \<open>The radial affine scale\<close>

text \<open>
  \<^verbatim>\<open>PolarAffine\<close>. The upstream axis-scale transform is a parameter, a map on points;
  \<open>limits\<close> is the value the referenced box has when the matrix is asked for. The node
  starts out invalid, and a change of the scale transform or of the box makes it invalid
  again. Computing the matrix also drops the cached inverse.
\<close>

record PolarAffine =
  scale_transform :: "point \<Rightarrow> point"
  limits :: Bbox
  invalid :: bool
  mtx :: "matrix option"
  inverted_cache :: "matrix option"

definition get_matrix :: "PolarAffine \<Rightarrow> matrix option \<times> PolarAffine" where
  "get_matrix self =
     (if invalid self
      then let limits_scaled = transformed (limits self) (scale_transform self);
               yscale = fsub (ymax limits_scaled) (ymin limits_scaled);
               s = fdiv (Fin 0.5) yscale;
               affine = translate (scale Affine2D s s) (Fin 0.5) (Fin 0.5)
           in (Some affine,
               self\<lparr>mtx := Some affine, inverted_cache := None, invalid := False\<rparr>)
      else (mtx self, self))"

section \<open>The radius locator\<close>

text \<open>
  \<^verbatim>\<open>RadialLocator\<close> wraps a base locator; calling the base gives its candidate ticks.
\<close>

record RadialLocator =
  base :: "unit \<Rightarrow> npfloat list"

definition RadialLocator_call :: "RadialLocator \<Rightarrow> npfloat list" where
  "RadialLocator_call self = (let ticks = base self () in [x \<leftarrow> ticks. fgt x (Fin 0)])"

section \<open>Interactive panning\<close>

text \<open>
  The gesture snapshot \<^verbatim>\<open>_pan_start\<close> is an attribute that exists only between
  \<^verbatim>\<open>start_pan\<close> and \<^verbatim>\<open>end_pan\<close>. The full data transform and its inverse come from the
  transform composition framework, which is not among the sources: they are parameters,
  maps on points, and the snapshot keeps the ones of the gesture's start.
\<close>

record PanState =
  rmax :: npfloat
  trans :: "point \<Rightarrow> point"
  trans_inverse :: "point \<Rightarrow> point"
  r_label_angle :: npfloat
  pan_x :: npfloat
  pan_y :: npfloat
  mode :: string

record PolarAxes =
  viewLim :: Bbox
  transData :: "point \<Rightarrow> point"
  transData_inverted :: "point \<Rightarrow> point"
  r_label1_position :: matrix
  r_label2_position :: matrix
  pan_start :: "PanState option"

datatype error = AttributeError | NameError

definition set_rmax :: "PolarAxes \<Rightarrow> npfloat \<Rightarrow> PolarAxes" where
  "set_rmax self v = self\<lparr>viewLim := (viewLim self)\<lparr>y1 := v\<rparr>\<rparr>"

definition get_rmax :: "PolarAxes \<Rightarrow> npfloat" where
  "get_rmax self = ymax (viewLim self)"

definition set_rmin :: "PolarAxes \<Rightarrow> npfloat \<Rightarrow> PolarAxes" where
  "set_rmin self v = self\<lparr>viewLim := (viewLim self)\<lparr>y0 := v\<rparr>\<rparr>"

definition get_rmin :: "PolarAxes \<Rightarrow> npfloat" where
  "get_rmin self = ymin (viewLim self)"

definition start_pan :: "PolarAxes \<Rightarrow> npfloat \<Rightarrow> npfloat \<Rightarrow> nat \<Rightarrow> PolarAxes" where
  "start_pan self px py button =
     (let angle = fmul (fdiv (to_values (r_label1_position self) ! 4) (Fin 180)) (Fin pi);
          m = (if button = 1
               then let epsilon = fdiv (Fin pi) (Fin 45);
                        t = fst (transData_inverted self (px, py))
                    in if fge t (fsub angle epsilon) \<and> fle t (fadd angle epsilon)
                       then ''drag_r_labels'' else []
               else if button = 3 then ''zoom'' else [])
      in self\<lparr>pan_start := Some
           \<lparr>rmax = get_rmax self,
            trans = transData self,
            trans_inverse = transData_inverted self,
            r_label_angle = to_values (r_label1_position self) ! 4,
            pan_x = px,
            pan_y = py,
            mode = m\<rparr>\<rparr>)"

definition end_pan :: "PolarAxes \<Rightarrow> error + PolarAxes" where
  "end_pan self =
     (case pan_start self of
        None \<Rightarrow> Inl AttributeError
      | Some _ \<Rightarrow> Inr (self\<lparr>pan_start := None\<rparr>))"

text \<open>
  \<^verbatim>\<open>drag_pan\<close>. Reading the missing attribute raises \<^verbatim>\<open>AttributeError\<close>. The name
  \<^verbatim>\<open>sign\<close> is bound nowhere in the module, so the branch that calls it raises
  \<^verbatim>\<open>NameError\<close>.
\<close>

definition drag_pan :: "PolarAxes \<Rightarrow> nat \<Rightarrow> string \<Rightarrow> npfloat \<Rightarrow> npfloat \<Rightarrow> error + PolarAxes" where
  "drag_pan self button key px py =
     (case pan_start self of
        None \<Rightarrow> Inl AttributeError
      | Some p \<Rightarrow>
          if mode p = ''drag_r_labels''
          then let startt = fst (trans_inverse p (pan_x p, pan_y p));
                   t = fst (trans_inverse p (px, py));
                   dt0 = fsub t startt;
                   dt1 = fsub startt t
               in if flt (fabs dt1) (fabs dt0) then Inl NameError
                  else let dt = fmul dt0 (Fin (- 1));
                           dt = fmul (fdiv dt (Fin pi)) (Fin 180);
                           rpad = to_values (r_label1_position self) ! 5
                       in Inr (self
                            \<lparr>r_label1_position :=
                               translate (clear (r_label1_position self))
                                 (fsub (r_label_angle p) dt) rpad,
                             r_label2_position :=
                               translate (clear (r_label2_position self))
                                 (fsub (r_label_angle p) dt) (fneg rpad)\<rparr>)
          else if mode p = ''zoom''
          then let startr = snd (trans_inverse p (pan_x p, pan_y p));
                   r = snd (trans_inverse p (px, py));
                   scale = fdiv r startr
               in Inr (set_rmax self (fdiv (rmax p) scale))
          else Inr self)"

section \<open>Concrete configurations\<close>

text \<open>A view-limits box over the full angular span with the given radial bounds.\<close>

definition box :: "real \<Rightarrow> real \<Rightarrow> Bbox" where
  "box lo hi = \<lparr>x0 = Fin 0, y0 = Fin lo, x1 = Fin (2 * pi), y1 = Fin hi\<rparr>"

text \<open>
  An axes with radial limits 0 and 10 whose radial labels sit at the given angle, padded
  by 0.5 either way as \<^verbatim>\<open>set_rgrids\<close> leaves them. Pointer positions are taken in
  projected coordinates, so the inverse of the data transform is the inverse projection
  alone.
\<close>

definition example_axes :: "real \<Rightarrow> PolarAxes" where
  "example_axes angle =
     \<lparr>viewLim = box 0 10,
      transData = polar_row_plain,
      transData_inverted = inverted_polar_row None,
      r_label1_position = translate Affine2D (Fin angle) (Fin 0.5),
      r_label2_position = translate Affine2D (Fin angle) (Fin (- 0.5)),
      pan_start = None\<rparr>"

text \<open>
  An axes with radial limits 8 and 10, so that \<^verbatim>\<open>rmin\<close> is 8 and the projections bound
  to it shift the radius by 8.
\<close>

definition offset_axes :: PolarAxes where
  "offset_axes =
     \<lparr>viewLim = box 8 10,
      transData = polar_row_masked (Fin 8),
      transData_inverted = inverted_polar_row (Some (Fin 8)),
      r_label1_position = translate Affine2D (Fin 0) (Fin 0.5),
      r_label2_position = translate Affine2D (Fin 0) (Fin (- 0.5)),
      pan_start = None\<rparr>"

text \<open>A freshly built radial affine scale over the limits 0 and 10 with a linear scale.\<close>

definition example_affine :: PolarAffine where
  "example_affine =
     \<lparr>scale_transform = (\<lambda>p. p), limits = box 0 10, invalid = True, mtx = None,
      inverted_cache = None\<rparr>"

section \<open>Arithmetic on numbers\<close>

lemma fadd_Fin [simp]: "fadd (Fin a) (Fin b) = Fin (a + b)"
  by (simp add: fadd_def signed_zero_def)

lemma fadd_Fin_NZero [simp]: "fadd (Fin a) NZero = Fin a"
  by (simp add: fadd_def signed_zero_def)

lemma fadd_NZero_Fin [simp]: "fadd NZero (Fin b) = Fin b"
  by (simp add: fadd_def signed_zero_def)

lemma fadd_NZero_NZero [simp]: "fadd NZero NZero = NZero"
  by (simp add: fadd_def signed_zero_def)

lemma fsub_Fin [simp]: "fsub (Fin a) (Fin b) = Fin (a - b)"
  by (simp add: fsub_def)

lemma fmul_Fin [simp]:
  "fmul (Fin a) (Fin b) = (if a * b = 0 \<and> (a < 0 \<or> b < 0) then NZero else Fin (a * b))"
  by (auto simp add: fmul_def signed_def signed_zero_def)

lemma fmul_Fin_NZero [simp]: "fmul (Fin a) NZero = (if a < 0 then Fin 0 else NZero)"
  by (simp add: fmul_def signed_def signed_zero_def)

lemma fmul_NZero_Fin [simp]: "fmul NZero (Fin b) = (if b < 0 then Fin 0 else NZero)"
  by (simp add: fmul_def signed_def signed_zero_def)

lemma fdiv_Fin [simp]:
  "fdiv (Fin a) (Fin b) =
     (if b = 0 then (if a = 0 then NaN else if a < 0 then NInf else PInf)
      else if a = 0 \<and> b < 0 then NZero else Fin (a / b))"
  by (auto simp add: fdiv_def signed_def signed_zero_def signed_inf_def)

lemma fdiv_NZero_Fin [simp]:
  "fdiv NZero (Fin b) = (if b = 0 then NaN else if b < 0 then Fin 0 else NZero)"
  by (simp add: fdiv_def signed_def signed_zero_def)

lemma fcos_Fin [simp]: "fcos (Fin a) = Fin (cos a)"
  by (simp add: fcos_def)

lemma farccos_Fin [simp]:
  "farccos (Fin a) = (if - 1 \<le> a \<and> a \<le> 1 then Fin (arccos a) else NaN)"
  by (simp add: farccos_def)

lemma fsub_Fin_NZero [simp]: "fsub (Fin a) NZero = Fin a"
  by (simp add: fsub_def)

lemma fmul_pos: "0 < a \<Longrightarrow> fmul (Fin a) (Fin b) = Fin (a * b)"
  by auto

lemma fmul_self: "fmul (Fin a) (Fin a) = Fin (a * a)"
  by auto

lemma fdiv_pos: "0 < b \<Longrightarrow> fdiv (Fin a) (Fin b) = Fin (a / b)"
  by auto

lemma flt_fsub: "flt a b \<Longrightarrow> flt (fsub a b) (Fin 0)"
  by (cases a; cases b) (auto simp add: fsub_def fadd_def signed_zero_def)

lemma fval_fdiv:
  "fval a = Some x \<Longrightarrow> fval b = Some y \<Longrightarrow> y \<noteq> 0 \<Longrightarrow> fval (fdiv a b) = Some (x / y)"
  by (cases a; cases b) (auto simp add: fdiv_def signed_def signed_zero_def)

lemma fval_fmul:
  "fval a = Some x \<Longrightarrow> fval b = Some y \<Longrightarrow> fval (fmul a b) = Some (x * y)"
  by (cases a; cases b) (auto simp add: fmul_def signed_def signed_zero_def)

lemma fval_fcos: "fval a = Some x \<Longrightarrow> fval (fcos a) = Some (cos x)"
  by (simp add: fcos_def)

lemma fval_fsin: "fval a = Some x \<Longrightarrow> fval (fsin a) = Some (sin x)"
  by (cases a) auto

section \<open>Auxiliary facts\<close>

lemma ymin_box: "lo \<le> hi \<Longrightarrow> ymin (box lo hi) = Fin lo"
  by (simp add: ymin_def box_def)

lemma ymax_box: "lo \<le> hi \<Longrightarrow> ymax (box lo hi) = Fin hi"
  by (auto simp add: ymax_def box_def fgt_def)

lemma translate_identity:
  "translate Affine2D (Fin a) (Fin b)
     = ((Fin 1, Fin 0, Fin a), (Fin 0, Fin 1, Fin b), (Fin 0, Fin 0, Fin 1))"
  by (simp add: translate_def Affine2D_def dot_def dot_row_def dot3_def)

lemma to_values_translate:
  "to_values (translate Affine2D (Fin a) (Fin b)) = [Fin 1, Fin 0, Fin 0, Fin 1, Fin a, Fin b]"
  by (simp add: translate_identity to_values_def)

lemma inverted_polar_row_east: "inverted_polar_row None (Fin 1, Fin 0) = (Fin 0, Fin 1)"
  by (simp add: inverted_polar_row_def)

lemma inverted_polar_row_south:
  "inverted_polar_row None (Fin 0, Fin (- 1)) = (Fin (3 * pi / 2), Fin 1)"
  by (simp add: inverted_polar_row_def)

lemma inverted_polar_row_5: "inverted_polar_row None (Fin 5, Fin 0) = (Fin 0, Fin 5)"
proof -
  have "sqrt 25 = 5" by (rule real_sqrt_unique) (simp_all add: power2_eq_square)
  then show ?thesis by (simp add: inverted_polar_row_def)
qed

lemma inverted_polar_row_10: "inverted_polar_row None (Fin 10, Fin 0) = (Fin 0, Fin 10)"
proof -
  have "sqrt 100 = 10" by (rule real_sqrt_unique) (simp_all add: power2_eq_square)
  then show ?thesis by (simp add: inverted_polar_row_def)
qed

lemma pan_start_example: "pan_start (example_axes a) = None"
  by (simp add: example_axes_def)

lemma viewLim_example: "viewLim (example_axes a) = box 0 10"
  by (simp add: example_axes_def)

lemma viewLim_start_pan: "viewLim (start_pan self px py button) = viewLim self"
  by (simp add: start_pan_def Let_def)

lemma end_pan_start_pan:
  "end_pan (start_pan self px py button)
     = Inr ((start_pan self px py button)\<lparr>pan_start := None\<rparr>)"
  by (simp add: end_pan_def start_pan_def Let_def)

lemma start_pan_zoom_example:
  "start_pan (example_axes 0) (Fin 5) (Fin 0) 3
     = (example_axes 0)\<lparr>pan_start := Some
         \<lparr>rmax = Fin 10, trans = polar_row_plain, trans_inverse = inverted_polar_row None,
          r_label_angle = Fin 0, pan_x = Fin 5, pan_y = Fin 0, mode = ''zoom''\<rparr>\<rparr>"
  by (simp add: start_pan_def example_axes_def get_rmax_def ymax_box to_values_translate)

section \<open>The projections\<close>

text \<open>
  With no radial offset the inverse projection undoes the forward one on every point off
  the origin: the projections are inverse to each other when \<^verbatim>\<open>rmin\<close> is 0.
\<close>

lemma roundtrip_rmin_zero:
  assumes "0 \<le> t" "t < 2 * pi" "0 < r"
  shows "inverted_polar_row None (polar_row_plain (Fin t, Fin r)) = (Fin t, Fin r)"
proof -
  have sq: "sqrt (r * cos t * (r * cos t) + r * sin t * (r * sin t)) = r"
  proof -
    have one: "cos t * cos t + sin t * sin t = 1"
      using sin_cos_squared_add2 [of t] by (simp add: power2_eq_square)
    have "r * cos t * (r * cos t) + r * sin t * (r * sin t)
            = r * r * (cos t * cos t) + r * r * (sin t * sin t)"
      by (simp only: mult_ac)
    also have "\<dots> = r * r * (cos t * cos t + sin t * sin t)"
      by (simp only: distrib_left)
    also have "\<dots> = r * r"
      by (simp only: one mult_1_right)
    finally show ?thesis using assms(3) by simp
  qed
  have nn: "\<not> r * cos t * (r * cos t) + r * sin t * (r * sin t) < 0"
    by (simp add: not_less)
  show ?thesis
  proof (cases "t \<le> pi")
    case True
    then have "0 \<le> sin t" using assms(1) by (simp add: sin_ge_zero)
    then have "\<not> r * sin t < 0" using assms(3) by (simp add: not_less)
    moreover have "arccos (cos t) = t" using True assms(1) by (simp add: arccos_cos)
    ultimately show ?thesis using assms(3) sq nn
      by (simp add: inverted_polar_row_def polar_row_plain_def fmul_pos fmul_self fdiv_pos
          del: fmul_Fin fdiv_Fin)
  next
    case False
    then have "sin t < 0" using assms(2) by (simp add: sin_lt_zero)
    then have "r * sin t < 0" using assms(3) by (simp add: mult_pos_neg)
    moreover have "arccos (cos t) = 2 * pi - t"
    proof -
      have "cos t = cos (2 * pi - t)" by (simp add: cos_diff)
      moreover have "arccos (cos (2 * pi - t)) = 2 * pi - t"
        using False assms(2) by (intro arccos_cos) auto
      ultimately show ?thesis by simp
    qed
    ultimately show ?thesis using assms(3) sq nn
      by (simp add: inverted_polar_row_def polar_row_plain_def fmul_pos fmul_self fdiv_pos
          del: fmul_Fin fdiv_Fin)
  qed
qed

text \<open>
  C1. Forward then inverse projection, both bound to the same axes, is to recover the
  angle and the radius. The inverse projection adds \<^verbatim>\<open>rmin\<close> to the radius before it
  divides \<open>x\<close> by the radius, so with \<^verbatim>\<open>rmin\<close> = 1 the point at angle 0 and radius 2
  comes back at angle \<open>pi / 3\<close>.
\<close>

theorem roundtrip_wrong_angle_rmin_one:
  "transform (\<lambda>a. box 1 3) (inverted (PolarTransform (Some 0)))
     (transform (\<lambda>a. box 1 3) (PolarTransform (Some 0)) [(Fin 0, Fin 2)])
   = [(Fin (pi / 3), Fin 2)] \<and>
   transform (\<lambda>a. box 1 3) (inverted (PolarTransform (Some 0)))
     (transform (\<lambda>a. box 1 3) (PolarTransform (Some 0)) [(Fin 0, Fin 2)])
   \<noteq> [(Fin 0, Fin 2)]"
  by (simp add: ymin_box fne_def polar_row_masked_def inverted_polar_row_def)

text \<open>
  C2, as stated: every row with a radius below \<^verbatim>\<open>rmin\<close> comes out as the undefined
  sentinel in both coordinates. With \<^verbatim>\<open>rmin\<close> = 0 the masking branch is not taken, and
  the row at angle 0 and radius -1 is projected to the ordinary point (-1, -0.0).
\<close>

theorem no_mask_at_rmin_zero:
  "flt (Fin (- 1)) (ymin (box 0 1)) \<and>
   transform (\<lambda>a. box 0 1) (PolarTransform (Some 0)) [(Fin 0, Fin (- 1))]
     = [(Fin (- 1), NZero)] \<and>
   transform (\<lambda>a. box 0 1) (PolarTransform (Some 0)) [(Fin 0, Fin (- 1))] \<noteq> [(NaN, NaN)]"
  by (simp add: ymin_box fne_def polar_row_plain_def)

text \<open>
  C2, amended: when the bound \<^verbatim>\<open>rmin\<close> is not 0, every row with a radius below
  \<^verbatim>\<open>rmin\<close> comes out as the undefined sentinel in both coordinates.
\<close>

theorem below_rmin_masked:
  assumes "fne (ymin (h a)) (Fin 0)" and "i < length tr" and "flt (snd (tr ! i)) (ymin (h a))"
  shows "transform h (PolarTransform (Some a)) tr ! i = (NaN, NaN)"
proof -
  have "flt (fsub (snd (tr ! i)) (ymin (h a))) (Fin 0)"
    using assms(3) by (rule flt_fsub)
  then have "polar_row_masked (ymin (h a)) (tr ! i) = (NaN, NaN)"
    by (simp add: polar_row_masked_def)
  then show ?thesis using assms(1,2) by simp
qed

theorem below_rmin_masked_witness:
  "fne (ymin (box 1 3)) (Fin 0) \<and> (0::nat) < length [(Fin 0, Fin 0.5)] \<and>
   flt (snd ([(Fin 0, Fin 0.5)] ! 0)) (ymin (box 1 3)) \<and>
   transform (\<lambda>a. box 1 3) (PolarTransform (Some 0)) [(Fin 0, Fin 0.5)] ! 0 = (NaN, NaN)"
  using below_rmin_masked [of "\<lambda>a. box 1 3" 0 0 "[(Fin 0, Fin 0.5)]"]
  by (simp add: ymin_box fne_def)

text \<open>
  C3. Inverting the forward projection gives the inverse projection bound to the same
  axes; inverting the inverse projection is to give the forward projection bound to the
  same axes, and gives the one bound to none.
\<close>

theorem inverted_inverse_drops_axis:
  "inverted (PolarTransform (Some 0)) = InvertedPolarTransform (Some 0) \<and>
   inverted (InvertedPolarTransform (Some 0)) = PolarTransform None \<and>
   inverted (InvertedPolarTransform (Some 0)) \<noteq> PolarTransform (Some 0)"
  by simp

text \<open>
  C7. The forward projection bound to no axes maps every row \<open>(t, r)\<close> to
  \<open>(r * cos t, r * sin t)\<close>; it agrees with the bound projection whenever that one's
  \<^verbatim>\<open>rmin\<close> is 0, and no row of numbers is replaced by the undefined sentinel: its
  image is the pair of numbers \<open>r * cos t\<close> and \<open>r * sin t\<close>, a zero among them
  negative when the radius or the cosine or sine is.
\<close>

theorem unbound_projection_plain:
  "transform h (PolarTransform None) tr
     = map (\<lambda>(t, r). (fmul r (fcos t), fmul r (fsin t))) tr \<and>
   (feq (ymin (h a)) (Fin 0) \<longrightarrow>
      transform h (PolarTransform (Some a)) tr = transform h (PolarTransform None) tr) \<and>
   (\<forall>i < length tr. \<forall>t r. tr ! i = (Fin t, Fin r) \<longrightarrow>
      transform h (PolarTransform None) tr ! i
        = (if r * cos t = 0 \<and> (r < 0 \<or> cos t < 0) then NZero else Fin (r * cos t),
           if r * sin t = 0 \<and> (r < 0 \<or> sin t < 0) then NZero else Fin (r * sin t))) \<and>
   (\<forall>i < length tr. \<forall>t r. fval (fst (tr ! i)) = Some t \<and> fval (snd (tr ! i)) = Some r \<longrightarrow>
      fval (fst (transform h (PolarTransform None) tr ! i)) = Some (r * cos t) \<and>
      fval (snd (transform h (PolarTransform None) tr ! i)) = Some (r * sin t))"
  by (auto simp add: fne_def polar_row_plain_def case_prod_beta Let_def
      fval_fmul fval_fcos fval_fsin)

theorem unbound_projection_plain_witness:
  "feq (ymin (box 0 10)) (Fin 0) \<and>
   transform (\<lambda>a. box 0 10) (PolarTransform (Some 0)) [(Fin 0, Fin (- 1))]
     = transform (\<lambda>a. box 0 10) (PolarTransform None) [(Fin 0, Fin (- 1))] \<and>
   (0::nat) < length [(Fin 0, Fin (- 1))] \<and>
   fval (fst ([(Fin 0, Fin (- 1))] ! 0)) = Some 0 \<and>
   fval (snd ([(Fin 0, Fin (- 1))] ! 0)) = Some (- 1) \<and>
   transform (\<lambda>a. box 0 10) (PolarTransform None) [(Fin 0, Fin (- 1))] ! 0
     = (Fin (- 1), NZero)"
  using unbound_projection_plain [of "\<lambda>a. box 0 10" "[(Fin 0, Fin (- 1))]" 0]
  by (simp add: ymin_box)

section \<open>The radius locator\<close>

text \<open>
  C10. Whatever candidates the base locator produces, none of the ticks the radius
  locator returns is at most 0: each of them is greater than 0.
\<close>

theorem radial_locator_positive:
  "\<forall>x \<in> set (RadialLocator_call self). \<not> fle x (Fin 0) \<and> fgt x (Fin 0)"
proof
  fix x assume "x \<in> set (RadialLocator_call self)"
  then have "fgt x (Fin 0)" by (simp add: RadialLocator_call_def)
  then show "\<not> fle x (Fin 0) \<and> fgt x (Fin 0)" by (cases x) (auto simp: fgt_def)
qed

theorem radial_locator_positive_witness:
  "RadialLocator_call \<lparr>base = (\<lambda>u. [Fin (- 1), Fin 0, Fin 2, NaN])\<rparr> = [Fin 2] \<and>
   \<not> fle (Fin 2) (Fin 0) \<and> fgt (Fin 2) (Fin 0)"
  using radial_locator_positive [of "\<lparr>base = (\<lambda>u. [Fin (- 1), Fin 0, Fin 2, NaN])\<rparr>"]
  by (simp add: RadialLocator_call_def fgt_def)

section \<open>The pan and zoom gestures\<close>

text \<open>
  C9. A drag with no gesture snapshot fails with \<^verbatim>\<open>AttributeError\<close>: when no gesture
  was started, and when \<^verbatim>\<open>end_pan\<close> has discarded the snapshot.
\<close>

theorem drag_without_start_faults:
  "(pan_start self = None \<longrightarrow> drag_pan self button key px py = Inl AttributeError) \<and>
   (end_pan self = Inr self' \<longrightarrow> drag_pan self' button key px py = Inl AttributeError)"
  by (auto simp add: drag_pan_def end_pan_def split: option.splits)

theorem drag_without_start_faults_witness:
  "pan_start (example_axes 0) = None \<and>
   drag_pan (example_axes 0) 1 [] (Fin 0) (Fin (- 1)) = Inl AttributeError \<and>
   end_pan (start_pan (example_axes 0) (Fin 1) (Fin 0) 1)
     = Inr ((start_pan (example_axes 0) (Fin 1) (Fin 0) 1)\<lparr>pan_start := None\<rparr>) \<and>
   drag_pan ((start_pan (example_axes 0) (Fin 1) (Fin 0) 1)\<lparr>pan_start := None\<rparr>)
     1 [] (Fin 0) (Fin (- 1)) = Inl AttributeError"
  using drag_without_start_faults [of "example_axes 0" 1 "[]" "Fin 0" "Fin (- 1)"]
    drag_without_start_faults [of "start_pan (example_axes 0) (Fin 1) (Fin 0) 1"
      1 "[]" "Fin 0" "Fin (- 1)"
      "(start_pan (example_axes 0) (Fin 1) (Fin 0) 1)\<lparr>pan_start := None\<rparr>"]
  by (simp add: pan_start_example end_pan_start_pan)

text \<open>
  What the radius bounds of a box are once \<^verbatim>\<open>set_rmax\<close> has written its upper corner.
\<close>

lemma viewLim_set_rmax: "viewLim (set_rmax self v) = (viewLim self)\<lparr>y1 := v\<rparr>"
  by (simp add: set_rmax_def)

lemma get_rmax_set_rmax:
  "get_rmax (set_rmax self v) = (if fgt v (y0 (viewLim self)) then v else y0 (viewLim self))"
  by (simp add: set_rmax_def get_rmax_def ymax_def)

lemma drag_pan_zoom:
  assumes "pan_start self = Some p" and "mode p = ''zoom''"
  shows "drag_pan self button key px py
           = Inr (set_rmax self
               (fdiv (rmax p)
                  (fdiv (snd (trans_inverse p (px, py)))
                        (snd (trans_inverse p (pan_x p, pan_y p))))))"
  using assms by (simp add: drag_pan_def)

lemma start_pan_zoom_offset:
  "start_pan offset_axes (Fin 0) (Fin 0) 3
     = offset_axes\<lparr>pan_start := Some
         \<lparr>rmax = Fin 10, trans = polar_row_masked (Fin 8),
          trans_inverse = inverted_polar_row (Some (Fin 8)),
          r_label_angle = Fin 0, pan_x = Fin 0, pan_y = Fin 0, mode = ''zoom''\<rparr>\<rparr>"
  by (simp add: start_pan_def offset_axes_def get_rmax_def ymax_box to_values_translate)

lemma inverted_polar_row_offset_centre:
  "snd (inverted_polar_row (Some (Fin 8)) (Fin 0, Fin 0)) = Fin 8"
  by (simp add: inverted_polar_row_def)

lemma inverted_polar_row_offset_4:
  "snd (inverted_polar_row (Some (Fin 8)) (Fin 4, Fin 0)) = Fin 12"
proof -
  have "sqrt 16 = 4" by (rule real_sqrt_unique) (simp_all add: power2_eq_square)
  then show ?thesis by (simp add: inverted_polar_row_def Let_def)
qed

text \<open>
  C5, as stated: after every zoom drag with a nonzero starting radius the maximum radius
  is the maximum radius of the gesture's start divided by the ratio of the current radius
  to the starting one. On an axes with radial limits 8 and 10, a gesture that starts at
  the centre, where the radius is 8, and moves to where the radius is 12 writes
  10 / (12 / 8) = 20 / 3 to the box's corner \<^verbatim>\<open>y1\<close>; this is below the other corner 8,
  so the maximum radius read back is 8.
\<close>

theorem zoom_rmax_below_other_bound:
  "snd (inverted_polar_row (Some (Fin 8)) (Fin 0, Fin 0)) = Fin 8 \<and>
   snd (inverted_polar_row (Some (Fin 8)) (Fin 4, Fin 0)) = Fin 12 \<and>
   rmax (the (pan_start (start_pan offset_axes (Fin 0) (Fin 0) 3))) = Fin 10 \<and>
   drag_pan (start_pan offset_axes (Fin 0) (Fin 0) 3) 3 [] (Fin 4) (Fin 0)
     = Inr (set_rmax (start_pan offset_axes (Fin 0) (Fin 0) 3) (Fin (20 / 3))) \<and>
   get_rmax (set_rmax (start_pan offset_axes (Fin 0) (Fin 0) 3) (Fin (20 / 3))) = Fin 8 \<and>
   Fin 8 \<noteq> Fin (10 / (12 / 8))"
proof -
  let ?s = "start_pan offset_axes (Fin 0) (Fin 0) 3"
  let ?p = "\<lparr>rmax = Fin 10, trans = polar_row_masked (Fin 8),
          trans_inverse = inverted_polar_row (Some (Fin 8)),
          r_label_angle = Fin 0, pan_x = Fin 0, pan_y = Fin 0, mode = ''zoom''\<rparr>"
  have p: "pan_start ?s = Some ?p" by (simp add: start_pan_zoom_offset)
  have "drag_pan ?s 3 [] (Fin 4) (Fin 0) = Inr (set_rmax ?s (Fin (20 / 3)))"
    using drag_pan_zoom [OF p, of 3 "[]" "Fin 4" "Fin 0"]
    by (simp add: inverted_polar_row_offset_centre inverted_polar_row_offset_4)
  moreover have "get_rmax (set_rmax ?s (Fin (20 / 3))) = Fin 8"
    by (simp add: get_rmax_set_rmax viewLim_start_pan offset_axes_def box_def fgt_def)
  moreover have "rmax (the (pan_start ?s)) = Fin 10"
    by (simp add: start_pan_zoom_offset)
  ultimately show ?thesis
    by (simp add: inverted_polar_row_offset_centre inverted_polar_row_offset_4)
qed

text \<open>
  C5, amended: in zoom mode a drag hands to \<^verbatim>\<open>set_rmax\<close>, which writes the box's corner
  \<^verbatim>\<open>y1\<close>, the maximum radius of the gesture's start divided by the ratio of the current
  radius to the starting radius, both radii read through the snapshot's inverse
  transform. The maximum radius read back afterwards is that quotient when it is greater
  than the box's other corner \<^verbatim>\<open>y0\<close>, and \<^verbatim>\<open>y0\<close> otherwise. With a starting radius
  other than 0, the quotient is the number \<open>rm / (r / startr)\<close> for a current radius
  other than 0, and an infinity for a current radius 0 and a maximum radius other than 0.
  The witness is the spec's example: maximum radius 10, starting radius 5 and current
  radius 10, over the other corner 0, give the maximum radius 5.
\<close>

theorem zoom_writes_quotient:
  assumes "pan_start self = Some p" and "mode p = ''zoom''"
    and "snd (trans_inverse p (pan_x p, pan_y p)) = sr"
    and "snd (trans_inverse p (px, py)) = rc"
    and "q = fdiv (rmax p) (fdiv rc sr)"
  shows "drag_pan self button key px py = Inr (set_rmax self q) \<and>
         viewLim (set_rmax self q) = (viewLim self)\<lparr>y1 := q\<rparr> \<and>
         get_rmax (set_rmax self q)
           = (if fgt q (y0 (viewLim self)) then q else y0 (viewLim self)) \<and>
         (\<forall>r startr rm.
            fval rc = Some r \<and> r \<noteq> 0 \<and> fval sr = Some startr \<and> startr \<noteq> 0 \<and>
            fval (rmax p) = Some rm \<longrightarrow>
              fval q = Some (rm / (r / startr))) \<and>
         (\<forall>startr rm.
            fval rc = Some 0 \<and> sr = Fin startr \<and> startr \<noteq> 0 \<and>
            rmax p = Fin rm \<and> rm \<noteq> 0 \<longrightarrow>
              q = signed_inf ((rm < 0) \<noteq> (sign_bit rc \<noteq> (startr < 0))))"
proof (intro conjI allI impI)
  show "drag_pan self button key px py = Inr (set_rmax self q)"
    using drag_pan_zoom [OF assms(1,2), of button key px py] assms(3,4,5) by simp
  show "viewLim (set_rmax self q) = (viewLim self)\<lparr>y1 := q\<rparr>"
    by (rule viewLim_set_rmax)
  show "get_rmax (set_rmax self q)
          = (if fgt q (y0 (viewLim self)) then q else y0 (viewLim self))"
    by (rule get_rmax_set_rmax)
next
  fix r startr rm
  assume a: "fval rc = Some r \<and> r \<noteq> 0 \<and> fval sr = Some startr \<and> startr \<noteq> 0 \<and>
            fval (rmax p) = Some rm"
  then have "fval (fdiv rc sr) = Some (r / startr)"
    by (simp add: fval_fdiv)
  moreover have "r / startr \<noteq> 0" using a by simp
  ultimately show "fval q = Some (rm / (r / startr))"
    using a assms(5) by (simp add: fval_fdiv)
next
  fix startr rm
  assume a: "fval rc = Some 0 \<and> sr = Fin startr \<and> startr \<noteq> 0 \<and>
            rmax p = Fin rm \<and> rm \<noteq> 0"
  then show "q = signed_inf ((rm < 0) \<noteq> (sign_bit rc \<noteq> (startr < 0)))"
    using assms(5)
    by (cases rc) (auto simp add: fdiv_def signed_def signed_zero_def signed_inf_def)
qed

theorem zoom_writes_quotient_witness:
  "pan_start (start_pan (example_axes 0) (Fin 5) (Fin 0) 3) \<noteq> None \<and>
   (5::real) \<noteq> 0 \<and>
   Fin 5 = fdiv (Fin 10) (fdiv (Fin 10) (Fin 5)) \<and>
   drag_pan (start_pan (example_axes 0) (Fin 5) (Fin 0) 3) 3 [] (Fin 10) (Fin 0)
     = Inr (set_rmax (start_pan (example_axes 0) (Fin 5) (Fin 0) 3) (Fin 5)) \<and>
   get_rmax (set_rmax (start_pan (example_axes 0) (Fin 5) (Fin 0) 3) (Fin 5)) = Fin 5"
proof -
  let ?s = "start_pan (example_axes 0) (Fin 5) (Fin 0) 3"
  let ?p = "\<lparr>rmax = Fin 10, trans = polar_row_plain, trans_inverse = inverted_polar_row None,
          r_label_angle = Fin 0, pan_x = Fin 5, pan_y = Fin 0, mode = ''zoom''\<rparr>"
  have p: "pan_start ?s = Some ?p" by (simp add: start_pan_zoom_example)
  have y: "y0 (viewLim ?s) = Fin 0"
    by (simp add: viewLim_start_pan viewLim_example box_def)
  have "drag_pan ?s 3 [] (Fin 10) (Fin 0) = Inr (set_rmax ?s (Fin 5)) \<and>
        get_rmax (set_rmax ?s (Fin 5)) = Fin 5"
    using zoom_writes_quotient [where self = "?s" and p = "?p" and sr = "Fin 5"
        and px = "Fin 10" and py = "Fin 0" and rc = "Fin 10" and q = "Fin 5"
        and button = 3 and key = "[]"] p y
    by (simp add: inverted_polar_row_5 inverted_polar_row_10 fgt_def)
  then show ?thesis using p by simp
qed

section \<open>The drag-label gesture\<close>

lemma start_pan_drag_example:
  "start_pan (example_axes 0) (Fin 1) (Fin 0) 1
     = (example_axes 0)\<lparr>pan_start := Some
         \<lparr>rmax = Fin 10, trans = polar_row_plain, trans_inverse = inverted_polar_row None,
          r_label_angle = Fin 0, pan_x = Fin 1, pan_y = Fin 0, mode = ''drag_r_labels''\<rparr>\<rparr>"
  by (simp add: start_pan_def example_axes_def get_rmax_def ymax_box to_values_translate
      inverted_polar_row_east fge_def Let_def)

lemma r_label1_start_pan:
  "r_label1_position (start_pan self px py button) = r_label1_position self"
  by (simp add: start_pan_def Let_def)

lemma r_label1_example:
  "r_label1_position (example_axes a) = translate Affine2D (Fin a) (Fin 0.5)"
  by (simp add: example_axes_def)

text \<open>
  What a drag in drag-label mode does on angles that are numbers: the branch that calls
  the unbound name is never taken, and both anchors move by the plain difference of the
  two pointer angles, in degrees.
\<close>

lemma drag_label_general:
  assumes "pan_start self = Some p" and "mode p = ''drag_r_labels''"
    and "fst (trans_inverse p (pan_x p, pan_y p)) = Fin startt"
    and "fst (trans_inverse p (px, py)) = Fin t"
    and "r_label_angle p = Fin angle"
  shows "drag_pan self button key px py
           = Inr (self
               \<lparr>r_label1_position :=
                  translate Affine2D (Fin (angle - (startt - t) / pi * 180))
                    (to_values (r_label1_position self) ! 5),
                r_label2_position :=
                  translate Affine2D (Fin (angle - (startt - t) / pi * 180))
                    (fneg (to_values (r_label1_position self) ! 5))\<rparr>)"
proof -
  have dead: "\<not> \<bar>startt - t\<bar> < \<bar>t - startt\<bar>"
    by (simp add: abs_minus_commute)
  have dt: "(t - startt) * (- 1) / pi * 180 = (startt - t) / pi * 180"
    by simp
  show ?thesis
    unfolding drag_pan_def Let_def using assms dead
    by (simp add: clear_def dt del: mult_minus1_right)
qed

text \<open>
  C4. In drag-label mode the angular delta is to be the shorter way round the circle. The
  code compares the magnitudes of \<open>t - startt\<close> and of \<open>startt - t\<close>, which are
  equal, so it always takes the plain difference. A gesture that starts at angle 0 and
  moves to angle \<open>3 * pi / 2\<close> is a quarter turn clockwise; the code takes it for three
  quarters of a turn the other way and puts both label anchors at 0 - (-270) = 270
  degrees, where the shorter way gives 0 - 90 = -90. The secondary anchor's padding is
  the primary's negated.
\<close>

theorem drag_label_takes_long_way:
  "fst (inverted_polar_row None (Fin 1, Fin 0)) = Fin 0 \<and>
   fst (inverted_polar_row None (Fin 0, Fin (- 1))) = Fin (3 * pi / 2) \<and>
   pi < \<bar>3 * pi / 2 - 0\<bar> \<and>
   drag_pan (start_pan (example_axes 0) (Fin 1) (Fin 0) 1) 1 [] (Fin 0) (Fin (- 1))
     = Inr ((start_pan (example_axes 0) (Fin 1) (Fin 0) 1)
         \<lparr>r_label1_position := translate Affine2D (Fin 270) (Fin 0.5),
          r_label2_position := translate Affine2D (Fin 270) (Fin (- 0.5))\<rparr>)"
proof -
  let ?s = "start_pan (example_axes 0) (Fin 1) (Fin 0) 1"
  let ?p = "\<lparr>rmax = Fin 10, trans = polar_row_plain, trans_inverse = inverted_polar_row None,
          r_label_angle = Fin 0, pan_x = Fin 1, pan_y = Fin 0, mode = ''drag_r_labels''\<rparr>"
  have p: "pan_start ?s = Some ?p" by (subst start_pan_drag_example) simp
  have "drag_pan ?s 1 [] (Fin 0) (Fin (- 1))
          = Inr (?s\<lparr>r_label1_position :=
                  translate Affine2D (Fin (0 - (0 - 3 * pi / 2) / pi * 180))
                    (to_values (r_label1_position ?s) ! 5),
                r_label2_position :=
                  translate Affine2D (Fin (0 - (0 - 3 * pi / 2) / pi * 180))
                    (fneg (to_values (r_label1_position ?s) ! 5))\<rparr>)"
    by (rule drag_label_general [OF p])
      (simp_all add: inverted_polar_row_east inverted_polar_row_south)
  then show ?thesis
    by (simp add: r_label1_start_pan r_label1_example to_values_translate
        inverted_polar_row_east inverted_polar_row_south)
qed

section \<open>The matrix of the radial affine scale\<close>

lemma scale_translate_matrix:
  "translate (scale Affine2D (Fin s) (Fin s)) (Fin a) (Fin b)
     = ((Fin s, Fin 0, Fin a), (Fin 0, Fin s, Fin b), (Fin 0, Fin 0, Fin 1))"
  by (simp add: translate_def scale_def Affine2D_def dot_def dot_row_def dot3_def)

text \<open>
  C6. An invalid radial affine scale computes its matrix as the uniform scaling by
  \<open>0.5 / yscale\<close> followed by the translation by (0.5, 0.5), where \<open>yscale\<close> is the
  difference of the radial limits' images under the upstream scale transform. When
  \<open>yscale\<close> is a number other than 0, the matrix sends a
  point \<open>(u, v)\<close> to \<open>(0.5 / yscale * u + 0.5, 0.5 / yscale * v + 0.5)\<close>, and the next
  call returns the same matrix from the cache. With the limits
  0 and 10 and a linear scale, a point projected from radius 10 lands at distance 0.5 from
  the centre (0.5, 0.5), and radius 0 lands on the centre.
\<close>

theorem polar_affine_matrix:
  "(invalid self \<longrightarrow>
      fst (get_matrix self)
        = Some (translate
            (scale Affine2D
               (fdiv (Fin 0.5)
                  (fsub (ymax (transformed (limits self) (scale_transform self)))
                        (ymin (transformed (limits self) (scale_transform self)))))
               (fdiv (Fin 0.5)
                  (fsub (ymax (transformed (limits self) (scale_transform self)))
                        (ymin (transformed (limits self) (scale_transform self))))))
            (Fin 0.5) (Fin 0.5))) \<and>
   (invalid self \<and>
    fsub (ymax (transformed (limits self) (scale_transform self)))
         (ymin (transformed (limits self) (scale_transform self))) = Fin yscale \<and>
    yscale \<noteq> 0 \<longrightarrow>
      (\<exists>m. get_matrix self
              = (Some m, self\<lparr>mtx := Some m, inverted_cache := None, invalid := False\<rparr>) \<and>
           get_matrix (snd (get_matrix self)) = (Some m, snd (get_matrix self)) \<and>
           m = translate (scale Affine2D (Fin (0.5 / yscale)) (Fin (0.5 / yscale)))
                 (Fin 0.5) (Fin 0.5) \<and>
           m = ((Fin (0.5 / yscale), Fin 0, Fin 0.5),
                (Fin 0, Fin (0.5 / yscale), Fin 0.5),
                (Fin 0, Fin 0, Fin 1)) \<and>
           (\<forall>u v. affine_point m (Fin u, Fin v)
                    = (Fin (0.5 / yscale * u + 0.5), Fin (0.5 / yscale * v + 0.5))))) \<and>
   (\<exists>m. fst (get_matrix example_affine) = Some m \<and>
        affine_point m (polar_row_plain (Fin t, Fin 10))
          = (Fin (0.5 + 0.5 * cos t), Fin (0.5 + 0.5 * sin t)) \<and>
        affine_point m (polar_row_plain (Fin t, Fin 0)) = (Fin 0.5, Fin 0.5))"
proof (intro conjI impI)
  assume "invalid self"
  then show "fst (get_matrix self)
        = Some (translate
            (scale Affine2D
               (fdiv (Fin 0.5)
                  (fsub (ymax (transformed (limits self) (scale_transform self)))
                        (ymin (transformed (limits self) (scale_transform self)))))
               (fdiv (Fin 0.5)
                  (fsub (ymax (transformed (limits self) (scale_transform self)))
                        (ymin (transformed (limits self) (scale_transform self))))))
            (Fin 0.5) (Fin 0.5))"
    by (simp add: get_matrix_def Let_def)
next
  assume a: "invalid self \<and>
    fsub (ymax (transformed (limits self) (scale_transform self)))
         (ymin (transformed (limits self) (scale_transform self))) = Fin yscale \<and>
    yscale \<noteq> 0"
  then show "\<exists>m. get_matrix self
              = (Some m, self\<lparr>mtx := Some m, inverted_cache := None, invalid := False\<rparr>) \<and>
           get_matrix (snd (get_matrix self)) = (Some m, snd (get_matrix self)) \<and>
           m = translate (scale Affine2D (Fin (0.5 / yscale)) (Fin (0.5 / yscale)))
                 (Fin 0.5) (Fin 0.5) \<and>
           m = ((Fin (0.5 / yscale), Fin 0, Fin 0.5),
                (Fin 0, Fin (0.5 / yscale), Fin 0.5),
                (Fin 0, Fin 0, Fin 1)) \<and>
           (\<forall>u v. affine_point m (Fin u, Fin v)
                    = (Fin (0.5 / yscale * u + 0.5), Fin (0.5 / yscale * v + 0.5)))"
    by (simp add: get_matrix_def Let_def scale_translate_matrix affine_point_def dot3_def)
next
  have y: "fsub (ymax (transformed (box 0 10) (\<lambda>p. p))) (ymin (transformed (box 0 10) (\<lambda>p. p)))
             = Fin 10"
    by (simp add: transformed_def box_def ymax_def ymin_def fgt_def)
  show "\<exists>m. fst (get_matrix example_affine) = Some m \<and>
        affine_point m (polar_row_plain (Fin t, Fin 10))
          = (Fin (0.5 + 0.5 * cos t), Fin (0.5 + 0.5 * sin t)) \<and>
        affine_point m (polar_row_plain (Fin t, Fin 0)) = (Fin 0.5, Fin 0.5)"
    using y
    by (simp add: get_matrix_def example_affine_def Let_def scale_translate_matrix
        affine_point_def dot3_def polar_row_plain_def)
qed

theorem polar_affine_matrix_witness:
  "invalid example_affine \<and>
   fsub (ymax (transformed (limits example_affine) (scale_transform example_affine)))
        (ymin (transformed (limits example_affine) (scale_transform example_affine)))
     = Fin 10 \<and>
   (10::real) \<noteq> 0 \<and>
   fst (get_matrix example_affine)
     = Some ((Fin (1 / 20), Fin 0, Fin (1 / 2)),
             (Fin 0, Fin (1 / 20), Fin (1 / 2)),
             (Fin 0, Fin 0, Fin 1))"
proof -
  have i: "invalid example_affine" by (simp add: example_affine_def)
  have y: "fsub (ymax (transformed (limits example_affine) (scale_transform example_affine)))
        (ymin (transformed (limits example_affine) (scale_transform example_affine)))
     = Fin 10"
    by (simp add: example_affine_def transformed_def box_def ymax_def ymin_def fgt_def)
  show ?thesis
    using polar_affine_matrix [of example_affine 10] i y by auto
qed

section \<open>The path transform\<close>





end
